theory Spec2Isabelle
  imports Main "HOL-Library.Sublist"
begin

section \<open>The chat-completion client of \<^verbatim>\<open>ai2holodeck/generation/github_llm.py\<close>\<close>

text \<open>
  A shallow embedding of the class \<^verbatim>\<open>GithubModelsLLM\<close>: its constructor
  \<^verbatim>\<open>__init__\<close>, the request builder \<^verbatim>\<open>_post\<close> and the operation
  \<^verbatim>\<open>__call__\<close> with its loop over the two endpoints.

  Python strings are modelled by \<^typ>\<open>string\<close>, one \<^typ>\<open>char\<close> for one code point
  (code points below 256). The HTTP transport (\<^verbatim>\<open>requests.Session.post\<close>) and the
  process environment (\<^verbatim>\<open>os.getenv\<close>) are outside the file; they are parameters of
  the model.
\<close>

subsection \<open>Decoded JSON values\<close>

text \<open>
  What \<^verbatim>\<open>r.json()\<close> returns: \<^verbatim>\<open>None\<close>, a bool, an int, a float, a str, a list or a
  dict. The source does no arithmetic on floats, so a float is identified with the
  text that Python's \<^verbatim>\<open>repr\<close> prints for it (\<^verbatim>\<open>0.2\<close>, \<^verbatim>\<open>1e-05\<close>, \<^verbatim>\<open>nan\<close>). A dict is the
  list of its items in insertion order; its keys are distinct.
\<close>

type_synonym float_lit = string

datatype json =
    JNull
  | JBool bool
  | JInt int
  | JFloat float_lit
  | JStr string
  | JArr "json list"
  | JObj "(string \<times> json) list"

text \<open>
  The exceptions that leave \<^verbatim>\<open>__call__\<close>: the \<^verbatim>\<open>RuntimeError\<close>s it raises itself, with
  their message, the built-in errors of probing a decoded body of an unexpected shape,
  none of which the source catches, and the \<^verbatim>\<open>requests.RequestException\<close> of the
  transport, with its text.
\<close>

datatype exc =
    RuntimeError string
  | AttributeError
  | TypeError
  | KeyError
  | IndexError
  | RequestException string

subsection \<open>Python built-ins used by the source\<close>

text \<open>Truthiness, as \<^verbatim>\<open>or\<close> and \<^verbatim>\<open>not\<close> test it.\<close>

fun truthy :: "json \<Rightarrow> bool" where
  "truthy JNull = False"
| "truthy (JBool b) = b"
| "truthy (JInt i) = (i \<noteq> 0)"
| "truthy (JFloat f) = (f \<noteq> ''0.0'' \<and> f \<noteq> ''-0.0'')"
| "truthy (JStr s) = (s \<noteq> [])"
| "truthy (JArr xs) = (xs \<noteq> [])"
| "truthy (JObj kvs) = (kvs \<noteq> [])"

text \<open>\<^verbatim>\<open>a or b\<close> on values that are a str or \<^verbatim>\<open>None\<close>: the first operand when it is a
  non-empty string, the second otherwise.\<close>

fun py_or :: "string option \<Rightarrow> string option \<Rightarrow> string option" where
  "py_or (Some (c # cs)) b = Some (c # cs)"
| "py_or a b = b"

text \<open>The same with a string literal as the last operand: the result is a str.\<close>

fun or_else :: "string option \<Rightarrow> string \<Rightarrow> string" where
  "or_else (Some (c # cs)) d = c # cs"
| "or_else a d = d"

text \<open>\<^verbatim>\<open>os.getenv(name, default)\<close>: the default only when the variable is unset.\<close>

definition getenv_default :: "(string \<Rightarrow> string option) \<Rightarrow> string \<Rightarrow> string \<Rightarrow> string" where
  "getenv_default env name d = (case env name of None \<Rightarrow> d | Some v \<Rightarrow> v)"

text \<open>\<^verbatim>\<open>s.rstrip("/")\<close>: every trailing slash is removed.\<close>

definition rstrip :: "char \<Rightarrow> string \<Rightarrow> string" where
  "rstrip ch s = rev (dropWhile (\<lambda>c. c = ch) (rev s))"

text \<open>\<^verbatim>\<open>s.lower()\<close> on code points below 256: the letters A-Z and the capital
  letters of Latin-1 (0xC0-0xDE without the multiplication sign 0xD7) move up by 32.\<close>

definition lower_char :: "char \<Rightarrow> char" where
  "lower_char c =
     (let n = (of_char c :: nat) in
      if 65 \<le> n \<and> n \<le> 90 \<or> 192 \<le> n \<and> n \<le> 222 \<and> n \<noteq> 215 then char_of (n + 32) else c)"

definition lower :: "string \<Rightarrow> string" where
  "lower s = map lower_char s"

text \<open>\<^verbatim>\<open>str(i)\<close> of an int: its decimal digits.\<close>

fun digits :: "nat \<Rightarrow> string" where
  "digits n =
     (if n < 10 then [''0123456789'' ! n]
      else digits (n div 10) @ [''0123456789'' ! (n mod 10)])"

declare digits.simps [simp del]

definition str_int :: "int \<Rightarrow> string" where
  "str_int i = (if i < 0 then CHR ''-'' # digits (nat (- i)) else digits (nat i))"

text \<open>\<^verbatim>\<open>repr(s)\<close> of a str: single quotes, unless the text has a single quote and no
  double quote; the quote and the backslash are escaped, tab, newline and carriage
  return are written \<^verbatim>\<open>\t\<close>, \<^verbatim>\<open>\n\<close>, \<^verbatim>\<open>\r\<close>, and any other code point that is not
  printable is written \<^verbatim>\<open>\xhh\<close>.\<close>

definition printable :: "char \<Rightarrow> bool" where
  "printable c = (let n = (of_char c :: nat) in 32 \<le> n \<and> n < 127 \<or> 160 < n \<and> n \<noteq> 173)"

definition hex_digit :: "nat \<Rightarrow> char" where
  "hex_digit n = ''0123456789abcdef'' ! n"

definition escape_char :: "char \<Rightarrow> char \<Rightarrow> string" where
  "escape_char q c =
     (if c = q \<or> c = CHR 0x5C then [CHR 0x5C, c]
      else if c = CHR 0x09 then [CHR 0x5C, CHR ''t'']
      else if c = CHR 0x0A then [CHR 0x5C, CHR ''n'']
      else if c = CHR 0x0D then [CHR 0x5C, CHR ''r'']
      else if printable c then [c]
      else [CHR 0x5C, CHR ''x'', hex_digit (of_char c div 16), hex_digit (of_char c mod 16)])"

definition repr_str :: "string \<Rightarrow> string" where
  "repr_str s =
     (let q = (if CHR 0x27 \<in> set s \<and> CHR 0x22 \<notin> set s then CHR 0x22 else CHR 0x27)
      in q # concat (map (escape_char q) s) @ [q])"

fun join :: "string \<Rightarrow> string list \<Rightarrow> string" where
  "join sep [] = []"
| "join sep [x] = x"
| "join sep (x # y # ys) = x @ sep @ join sep (y # ys)"

text \<open>\<^verbatim>\<open>repr(v)\<close> of a decoded value.\<close>

fun py_repr :: "json \<Rightarrow> string" where
  "py_repr JNull = ''None''"
| "py_repr (JBool b) = (if b then ''True'' else ''False'')"
| "py_repr (JInt i) = str_int i"
| "py_repr (JFloat f) = f"
| "py_repr (JStr s) = repr_str s"
| "py_repr (JArr xs) = ''['' @ join '', '' (map py_repr xs) @ '']''"
| "py_repr (JObj kvs) =
     ''{'' @ join '', '' (map (\<lambda>(k, v). repr_str k @ '': '' @ py_repr v) kvs) @ ''}''"

text \<open>\<^verbatim>\<open>str(v)\<close>, which is also what an f-string writes for \<^verbatim>\<open>{v}\<close>: a str is
  itself, any other value its \<^verbatim>\<open>repr\<close>.\<close>

fun py_str :: "json \<Rightarrow> string" where
  "py_str (JStr s) = s"
| "py_str v = py_repr v"

text \<open>\<^verbatim>\<open>k in v\<close> for a str \<^verbatim>\<open>k\<close>: a key of a dict, an element of a list, a substring
  of a str; any other value is not iterable.\<close>

fun is_substring :: "string \<Rightarrow> string \<Rightarrow> bool" where
  "is_substring k [] = (k = [])"
| "is_substring k (c # cs) = (prefix k (c # cs) \<or> is_substring k cs)"

fun py_in :: "string \<Rightarrow> json \<Rightarrow> exc + bool" where
  "py_in k (JObj kvs) = Inr (map_of kvs k \<noteq> None)"
| "py_in k (JArr xs) = Inr (JStr k \<in> set xs)"
| "py_in k (JStr s) = Inr (is_substring k s)"
| "py_in k v = Inl TypeError"

text \<open>\<^verbatim>\<open>v.get(k, d)\<close>: only a dict has the method.\<close>

fun py_get :: "json \<Rightarrow> string \<Rightarrow> json \<Rightarrow> exc + json" where
  "py_get (JObj kvs) k d = Inr (case map_of kvs k of None \<Rightarrow> d | Some v \<Rightarrow> v)"
| "py_get v k d = Inl AttributeError"

text \<open>\<^verbatim>\<open>v[k]\<close> for a str \<^verbatim>\<open>k\<close>.\<close>

fun py_item :: "json \<Rightarrow> string \<Rightarrow> exc + json" where
  "py_item (JObj kvs) k = (case map_of kvs k of None \<Rightarrow> Inl KeyError | Some v \<Rightarrow> Inr v)"
| "py_item v k = Inl TypeError"

text \<open>\<^verbatim>\<open>v[n]\<close> for an index \<^verbatim>\<open>n \<ge> 0\<close>: an element of a list, a character of a str;
  no dict decoded from JSON has an int key.\<close>

fun py_index :: "json \<Rightarrow> nat \<Rightarrow> exc + json" where
  "py_index (JArr xs) n = (if n < length xs then Inr (xs ! n) else Inl IndexError)"
| "py_index (JStr s) n = (if n < length s then Inr (JStr [s ! n]) else Inl IndexError)"
| "py_index (JObj kvs) n = Inl KeyError"
| "py_index v n = Inl TypeError"

text \<open>\<^verbatim>\<open>v[:n]\<close>: a str and a list can be sliced. Slicing a dict is a \<^verbatim>\<open>TypeError\<close>
  (unhashable slice) up to Python 3.11, the version the project documents.\<close>

fun py_slice :: "json \<Rightarrow> nat \<Rightarrow> exc + json" where
  "py_slice (JStr s) n = Inr (JStr (take n s))"
| "py_slice (JArr xs) n = Inr (JArr (take n xs))"
| "py_slice v n = Inl TypeError"

subsection \<open>The client and its constructor\<close>

text \<open>
  The keyword arguments of \<^verbatim>\<open>__init__\<close>. \<^const>\<open>None\<close> stands for an argument that is left
  out (or passed as \<^verbatim>\<open>None\<close>, the default of the first three and of \<^verbatim>\<open>trust_env\<close>).
\<close>

record init_args =
  arg_api_key :: "string option"
  arg_base_url :: "string option"
  arg_model :: "string option"
  arg_max_tokens :: "int option"
  arg_temperature :: "float_lit option"
  arg_timeout :: "int option"
  arg_trust_env :: "bool option"

text \<open>The attributes of an instance; \<^verbatim>\<open>trust_env\<close> is the attribute of its session.\<close>

record GithubModelsLLM =
  api_key :: "string option"
  base_url :: string
  endpoint_primary :: string
  endpoint_fallback :: string
  model :: string
  max_tokens :: int
  temperature :: float_lit
  timeout :: int
  trust_env :: bool

text \<open>The base URL before \<^verbatim>\<open>.rstrip("/")\<close>: the argument, the two variables, the
  default.\<close>

definition resolved_base_url :: "init_args \<Rightarrow> (string \<Rightarrow> string option) \<Rightarrow> string" where
  "resolved_base_url a env =
     or_else (arg_base_url a) (or_else (env ''OPENAI_API_BASE'')
       (or_else (env ''OPENAI_BASE_URL'') ''https://models.github.ai/inference''))"

definition init :: "init_args \<Rightarrow> (string \<Rightarrow> string option) \<Rightarrow> GithubModelsLLM" where
  "init a env =
     (let key = py_or (arg_api_key a) (py_or (env ''GITHUB_TOKEN'')
                  (py_or (env ''GH_TOKEN'') (env ''OPENAI_API_KEY'')));
          base = rstrip CHR ''/'' (resolved_base_url a env)
      in \<lparr> api_key = key,
           base_url = base,
           endpoint_primary = base @ ''/v1/chat/completions'',
           endpoint_fallback = base @ ''/chat/completions'',
           model = or_else (arg_model a) (getenv_default env ''HOLODECK_MODEL'' ''openai/gpt-4o-mini''),
           max_tokens = (case arg_max_tokens a of None \<Rightarrow> 2048 | Some n \<Rightarrow> n),
           temperature = (case arg_temperature a of None \<Rightarrow> ''0.2'' | Some t \<Rightarrow> t),
           timeout = (case arg_timeout a of None \<Rightarrow> 120 | Some t \<Rightarrow> t),
           trust_env = (case arg_trust_env a of
                          None \<Rightarrow> lower (getenv_default env ''HOLODECK_TRUST_ENV'' ''0'')
                                    \<in> {''1'', ''true'', ''yes''}
                        | Some b \<Rightarrow> b) \<rparr>)"

subsection \<open>The transport\<close>

text \<open>
  One call of \<^verbatim>\<open>self.session.post(url, headers=headers, json=payload, timeout=...)\<close>:
  what is sent, and what comes back. A response has its status, its raw text and the
  result of \<^verbatim>\<open>r.json()\<close>, \<^const>\<open>None\<close> when decoding raises. The transport is a
  parameter: a function of the request and the state of the world \<open>'w\<close>, which it may
  change. Instead of a response it may raise a \<^verbatim>\<open>requests.RequestException\<close> (a timeout, a
  refused connection), given by its text.
\<close>

record request =
  req_url :: string
  req_headers :: "(string \<times> string) list"
  req_json :: json
  req_timeout :: int
  req_trust_env :: bool

record response =
  status_code :: int
  text_of :: string
  json_of :: "json option"

type_synonym 'w transport = "request \<Rightarrow> 'w \<Rightarrow> (string + response) \<times> 'w"

text \<open>\<^verbatim>\<open>f"Bearer {self.api_key}"\<close>: an unset credential is written \<^verbatim>\<open>None\<close>.\<close>

definition bearer :: "string option \<Rightarrow> string" where
  "bearer k = ''Bearer '' @ (case k of None \<Rightarrow> ''None'' | Some s \<Rightarrow> s)"

definition request_of :: "GithubModelsLLM \<Rightarrow> string \<Rightarrow> json \<Rightarrow> request" where
  "request_of c url payload =
     \<lparr> req_url = url,
       req_headers = [(''Authorization'', bearer (api_key c)),
                      (''Content-Type'', ''application/json''),
                      (''Accept'', ''application/vnd.github+json''),
                      (''X-GitHub-Api-Version'', ''2022-11-28'')],
       req_json = payload,
       req_timeout = timeout c,
       req_trust_env = trust_env c \<rparr>"

definition post :: "'w transport \<Rightarrow> GithubModelsLLM \<Rightarrow> string \<Rightarrow> json \<Rightarrow> 'w
    \<Rightarrow> (string + response) \<times> 'w" where
  "post send c url payload w = send (request_of c url payload) w"

subsection \<open>The call\<close>

text \<open>The wire payload, built once per call.\<close>

definition payload_of :: "GithubModelsLLM \<Rightarrow> string \<Rightarrow> json" where
  "payload_of c prompt =
     JObj [(''model'', JStr (model c)),
           (''messages'', JArr [JObj [(''role'', JStr ''user''), (''content'', JStr prompt)]]),
           (''max_tokens'', JInt (max_tokens c)),
           (''temperature'', JFloat (temperature c))]"

text \<open>
  What one pass through the body of the \<^verbatim>\<open>for\<close> loop does with the response of the
  current endpoint: it returns a value, raises, or goes on to the next endpoint
  (\<^verbatim>\<open>continue\<close>).
\<close>

datatype outcome = Return json | Continue | Raise exc

definition on_value :: "exc + 'a \<Rightarrow> ('a \<Rightarrow> outcome) \<Rightarrow> outcome" where
  "on_value x f = (case x of Inl e \<Rightarrow> Raise e | Inr v \<Rightarrow> f v)"

definition unauthorized_msg :: "string \<Rightarrow> string \<Rightarrow> string" where
  "unauthorized_msg url body =
     ''Unauthorized at '' @ url @ ''. Check token (models:read) and daily limits. Body: ''
       @ take 300 body"

definition non_json_msg :: "int \<Rightarrow> string \<Rightarrow> string \<Rightarrow> string" where
  "non_json_msg status url body =
     ''Non-JSON response '' @ str_int status @ '' from '' @ url @ '': '' @ take 500 body"

definition api_error_msg :: "int \<Rightarrow> json \<Rightarrow> json \<Rightarrow> string" where
  "api_error_msg status code excerpt =
     ''GitHub Models API error '' @ str_int status @ '' ('' @ py_str code @ ''): ''
       @ py_str excerpt"

definition loop_body :: "GithubModelsLLM \<Rightarrow> string \<Rightarrow> response \<Rightarrow> outcome" where
  "loop_body c url r =
     (case json_of r of
        None \<Rightarrow>
          if status_code r \<in> {401, 403} then
            Raise (RuntimeError (unauthorized_msg url (text_of r)))
          else if status_code r \<in> {404, 405} then Continue
          else Raise (RuntimeError (non_json_msg (status_code r) url (text_of r)))
      | Some data \<Rightarrow>
          on_value (if status_code r \<ge> 300 then Inr True else py_in ''error'' data) (\<lambda>failed.
            if failed then
              on_value (py_get data ''error'' (JObj [])) (\<lambda>err.
              on_value (py_get err ''code'' JNull) (\<lambda>code.
              on_value (py_get err ''message'' JNull) (\<lambda>m.
                let msg = (if truthy m then m else JStr (py_str data)) in
                if url = endpoint_primary c \<and> status_code r \<in> {404, 422} then Continue
                else
                  on_value (py_slice msg 300) (\<lambda>excerpt.
                    Raise (RuntimeError (api_error_msg (status_code r) code excerpt))))))
            else
              on_value (py_item data ''choices'') (\<lambda>choices.
              on_value (py_index choices 0) (\<lambda>choice.
              on_value (py_item choice ''message'') (\<lambda>message.
              on_value (py_item message ''content'') Return)))))"

definition no_endpoint_msg :: string where
  "no_endpoint_msg = ''Failed to reach a working chat/completions endpoint on GitHub Models.''"

definition no_api_key_msg :: string where
  "no_api_key_msg = ''No API key. Set GITHUB_TOKEN or OPENAI_API_KEY.''"

text \<open>
  The loop over the endpoints. The result is what the call returns or raises, the
  requests that were sent, in order, and the state of the world afterwards.
\<close>

fun for_url :: "'w transport \<Rightarrow> GithubModelsLLM \<Rightarrow> json \<Rightarrow> string list \<Rightarrow> 'w
    \<Rightarrow> (exc + json) \<times> request list \<times> 'w" where
  "for_url send c payload [] w = (Inl (RuntimeError no_endpoint_msg), [], w)"
| "for_url send c payload (url # urls) w =
     (case post send c url payload w of
        (Inl e, w') \<Rightarrow> (Inl (RequestException e), [request_of c url payload], w')
      | (Inr r, w') \<Rightarrow>
          (case loop_body c url r of
             Return v \<Rightarrow> (Inr v, [request_of c url payload], w')
           | Raise e \<Rightarrow> (Inl e, [request_of c url payload], w')
           | Continue \<Rightarrow>
               (case for_url send c payload urls w' of
                  (res, sent, w'') \<Rightarrow> (res, request_of c url payload # sent, w''))))"

text \<open>\<^verbatim>\<open>not self.api_key\<close>: the credential is \<^verbatim>\<open>None\<close> or the empty string.\<close>

fun no_key :: "string option \<Rightarrow> bool" where
  "no_key None = True"
| "no_key (Some s) = (s = [])"

definition call :: "'w transport \<Rightarrow> GithubModelsLLM \<Rightarrow> string \<Rightarrow> 'w
    \<Rightarrow> (exc + json) \<times> request list \<times> 'w" where
  "call send c prompt w =
     (if no_key (api_key c) then (Inl (RuntimeError no_api_key_msg), [], w)
      else for_url send c (payload_of c prompt) [endpoint_primary c, endpoint_fallback c] w)"

section \<open>Properties\<close>

subsection \<open>One pass through the loop\<close>

lemma for_url_single_sent:
  "fst (snd (for_url send c p [u] w)) = [request_of c u p]"
  by (simp split: prod.splits sum.splits outcome.splits)

lemma for_url_continue:
  assumes "post send c u p w = (Inr r, w')" and "loop_body c u r = Continue"
  shows "for_url send c p (u # us) w =
    (case for_url send c p us w' of (res, sent, w'') \<Rightarrow> (res, request_of c u p # sent, w''))"
  using assms by simp

lemma for_url_return:
  assumes "post send c u p w = (Inr r, w')" and "loop_body c u r = Return v"
  shows "for_url send c p (u # us) w = (Inr v, [request_of c u p], w')"
  using assms by simp

lemma for_url_raise:
  assumes "post send c u p w = (Inr r, w')" and "loop_body c u r = Raise e"
  shows "for_url send c p (u # us) w = (Inl e, [request_of c u p], w')"
  using assms by simp

lemma for_url_transport_error:
  assumes "post send c u p w = (Inl e, w')"
  shows "for_url send c p (u # us) w = (Inl (RequestException e), [request_of c u p], w')"
  using assms by simp

subsection \<open>The credential\<close>

lemma api_key_init:
  "api_key (init a env) = py_or (arg_api_key a) (py_or (env ''GITHUB_TOKEN'')
      (py_or (env ''GH_TOKEN'') (env ''OPENAI_API_KEY'')))"
  by (simp add: init_def resolved_base_url_def Let_def)

lemma py_or_no_key: "no_key a \<Longrightarrow> py_or a b = b"
  by (cases "(a, b)" rule: py_or.cases) simp_all

lemma call_no_key:
  "no_key (api_key c) \<Longrightarrow> call send c prompt w = (Inl (RuntimeError no_api_key_msg), [], w)"
  by (simp add: call_def)

text \<open>
  Claim C3. The constructor has no failing branch: with no explicit credential and the
  three credential variables unset or empty it returns an instance whose credential is
  unset or empty. A call on any instance with such a credential raises the
  \<^verbatim>\<open>RuntimeError\<close> "No API key ..." (the spec's ConfigError); no request is sent and the
  world of the transport is the one before the call.
\<close>

theorem missing_credential_fails_before_any_request:
  "(no_key (arg_api_key a) \<and> no_key (env ''GITHUB_TOKEN'') \<and> no_key (env ''GH_TOKEN'')
      \<and> no_key (env ''OPENAI_API_KEY'') \<longrightarrow>
        no_key (api_key (init a env))
        \<and> call send (init a env) prompt w = (Inl (RuntimeError no_api_key_msg), [], w))
   \<and> (no_key (api_key c) \<longrightarrow>
        call send c prompt w = (Inl (RuntimeError no_api_key_msg), [], w))"
proof (intro conjI impI)
  assume "no_key (arg_api_key a) \<and> no_key (env ''GITHUB_TOKEN'') \<and> no_key (env ''GH_TOKEN'')
      \<and> no_key (env ''OPENAI_API_KEY'')"
  then show unset: "no_key (api_key (init a env))"
    by (simp add: api_key_init py_or_no_key)
  then show "call send (init a env) prompt w = (Inl (RuntimeError no_api_key_msg), [], w)"
    by (rule call_no_key)
next
  assume "no_key (api_key c)"
  then show "call send c prompt w = (Inl (RuntimeError no_api_key_msg), [], w)"
    by (rule call_no_key)
qed

text \<open>An instance built with no credential but an empty \<^verbatim>\<open>OPENAI_API_KEY\<close>; the transport
  counts its calls, and the count stays at zero.\<close>

theorem missing_credential_witness:
  "no_key (api_key (init \<lparr>arg_api_key = None, arg_base_url = None, arg_model = None,
        arg_max_tokens = None, arg_temperature = None, arg_timeout = None,
        arg_trust_env = None\<rparr> [''OPENAI_API_KEY'' \<mapsto> []]))
   \<and> call (\<lambda>rq n. (Inl ''unreachable'', Suc n))
        (init \<lparr>arg_api_key = None, arg_base_url = None, arg_model = None,
        arg_max_tokens = None, arg_temperature = None, arg_timeout = None,
        arg_trust_env = None\<rparr> [''OPENAI_API_KEY'' \<mapsto> []]) ''describe a chair'' (0::nat)
      = (Inl (RuntimeError no_api_key_msg), [], 0)"
  using missing_credential_fails_before_any_request
      [of "\<lparr>arg_api_key = None, arg_base_url = None, arg_model = None,
        arg_max_tokens = None, arg_temperature = None, arg_timeout = None,
        arg_trust_env = None\<rparr>" "[''OPENAI_API_KEY'' \<mapsto> []]"
        "\<lambda>rq n. (Inl ''unreachable'', Suc n)" "''describe a chair''" "0::nat"]
  by simp

subsection \<open>Success at the primary endpoint\<close>

lemma loop_body_success:
  assumes "status_code r < 300"
    and "json_of r = Some (JObj kvs)"
    and "map_of kvs ''error'' = None"
    and "map_of kvs ''choices'' = Some (JArr (JObj ch # others))"
    and "map_of ch ''message'' = Some (JObj ms)"
    and "map_of ms ''content'' = Some content"
  shows "loop_body c url r = Return content"
  using assms by (simp add: loop_body_def on_value_def)

text \<open>
  Claim C4, as amended. The source takes a parsed body for a failure as soon as it has
  the key \<^verbatim>\<open>error\<close> (\<^verbatim>\<open>"error" in data\<close>), whatever the value under the key, so the
  success case is the one of a body without that key. With a credential, when the
  primary endpoint answers with a status below 300 and a JSON object that has no
  \<^verbatim>\<open>error\<close> key and holds a value at \<^verbatim>\<open>choices[0].message.content\<close>, the call returns
  exactly that value; the only request sent is the one to the primary endpoint.
\<close>

theorem primary_success_returns_content:
  assumes "\<not> no_key (api_key c)"
    and "send (request_of c (endpoint_primary c) (payload_of c prompt)) w = (Inr r, w')"
    and "status_code r < 300"
    and "json_of r = Some (JObj kvs)"
    and "map_of kvs ''error'' = None"
    and "map_of kvs ''choices'' = Some (JArr (JObj ch # others))"
    and "map_of ch ''message'' = Some (JObj ms)"
    and "map_of ms ''content'' = Some content"
  shows "call send c prompt w =
    (Inr content, [request_of c (endpoint_primary c) (payload_of c prompt)], w')"
proof -
  have "loop_body c (endpoint_primary c) r = Return content"
    using assms(3-8) by (rule loop_body_success)
  moreover have "post send c (endpoint_primary c) (payload_of c prompt) w = (Inr r, w')"
    using assms(2) by (simp add: post_def)
  ultimately show ?thesis
    using assms(1) by (simp add: call_def for_url_return)
qed

text \<open>The scenario of the spec: the prompt "describe a chair", status 200 and the
  content "A wooden chair."; the transport counts one call.\<close>

theorem primary_success_witness:
  "call (\<lambda>rq n. (Inr \<lparr>status_code = 200, text_of = ''(the JSON text)'',
            json_of = Some (JObj [(''choices'',
              JArr [JObj [(''message'', JObj [(''content'', JStr ''A wooden chair.'')])]])])\<rparr>, Suc n))
      (init \<lparr>arg_api_key = Some ''token'', arg_base_url = None, arg_model = None,
        arg_max_tokens = None, arg_temperature = None, arg_timeout = None,
        arg_trust_env = None\<rparr> Map.empty) ''describe a chair'' (0::nat)
   = (Inr (JStr ''A wooden chair.''),
      [\<lparr>req_url = ''https://models.github.ai/inference/v1/chat/completions'',
        req_headers = [(''Authorization'', ''Bearer token''),
                       (''Content-Type'', ''application/json''),
                       (''Accept'', ''application/vnd.github+json''),
                       (''X-GitHub-Api-Version'', ''2022-11-28'')],
        req_json = JObj [(''model'', JStr ''openai/gpt-4o-mini''),
           (''messages'', JArr [JObj [(''role'', JStr ''user''), (''content'', JStr ''describe a chair'')]]),
           (''max_tokens'', JInt 2048),
           (''temperature'', JFloat ''0.2'')],
        req_timeout = 120, req_trust_env = False\<rparr>], 1)"
  using primary_success_returns_content
     [of "init \<lparr>arg_api_key = Some ''token'', arg_base_url = None, arg_model = None,
        arg_max_tokens = None, arg_temperature = None, arg_timeout = None,
        arg_trust_env = None\<rparr> Map.empty"
      "\<lambda>rq n. (Inr \<lparr>status_code = 200, text_of = ''(the JSON text)'',
            json_of = Some (JObj [(''choices'',
              JArr [JObj [(''message'', JObj [(''content'', JStr ''A wooden chair.'')])]])])\<rparr>, Suc n)"
      "''describe a chair''" "0::nat" _ "1::nat"
      "[(''choices'', JArr [JObj [(''message'', JObj [(''content'', JStr ''A wooden chair.'')])]])]"
      "[(''message'', JObj [(''content'', JStr ''A wooden chair.'')])]" "[]"
      "[(''content'', JStr ''A wooden chair.'')]" "JStr ''A wooden chair.''"]
  by (simp add: init_def resolved_base_url_def Let_def rstrip_def request_of_def payload_of_def getenv_default_def
      bearer_def lower_def lower_char_def)

text \<open>The claim as the spec states it fails: the primary endpoint answers 200, the body
  holds \<^verbatim>\<open>"error": null\<close>, which is no structured error, beside the content, and the call
  does not return the content: the body goes to the failure branch, where
  \<^verbatim>\<open>err.get("code")\<close> raises \<^verbatim>\<open>AttributeError\<close>.\<close>

theorem primary_success_counterexample:
  "fst (call (\<lambda>rq n. (Inr \<lparr>status_code = 200, text_of = ''(the JSON text)'',
            json_of = Some (JObj [(''error'', JNull), (''choices'',
              JArr [JObj [(''message'', JObj [(''content'', JStr ''A wooden chair.'')])]])])\<rparr>, Suc n))
      (init \<lparr>arg_api_key = Some ''token'', arg_base_url = None, arg_model = None,
        arg_max_tokens = None, arg_temperature = None, arg_timeout = None,
        arg_trust_env = None\<rparr> Map.empty) ''describe a chair'' (0::nat))
     = Inl AttributeError
   \<and> fst (call (\<lambda>rq n. (Inr \<lparr>status_code = 200, text_of = ''(the JSON text)'',
            json_of = Some (JObj [(''error'', JNull), (''choices'',
              JArr [JObj [(''message'', JObj [(''content'', JStr ''A wooden chair.'')])]])])\<rparr>, Suc n))
      (init \<lparr>arg_api_key = Some ''token'', arg_base_url = None, arg_model = None,
        arg_max_tokens = None, arg_temperature = None, arg_timeout = None,
        arg_trust_env = None\<rparr> Map.empty) ''describe a chair'' (0::nat))
     \<noteq> Inr (JStr ''A wooden chair.'')
   \<and> snd (snd (call (\<lambda>rq n. (Inr \<lparr>status_code = 200, text_of = ''(the JSON text)'',
            json_of = Some (JObj [(''error'', JNull), (''choices'',
              JArr [JObj [(''message'', JObj [(''content'', JStr ''A wooden chair.'')])]])])\<rparr>, Suc n))
      (init \<lparr>arg_api_key = Some ''token'', arg_base_url = None, arg_model = None,
        arg_max_tokens = None, arg_temperature = None, arg_timeout = None,
        arg_trust_env = None\<rparr> Map.empty) ''describe a chair'' (0::nat))) = 1"
  by (simp add: call_def init_def resolved_base_url_def Let_def rstrip_def post_def loop_body_def
      on_value_def)

subsection \<open>The fallback after an unparsable body\<close>


lemma for_url_continue_single:
  assumes "post send c u p w = (Inr r, w')" and "loop_body c u r = Continue"
  shows "\<exists>res w''. for_url send c p [u, u'] w = (res, [request_of c u p, request_of c u' p], w'')
      \<and> for_url send c p [u'] w' = (res, [request_of c u' p], w'')"
proof -
  obtain res reqs w'' where fb: "for_url send c p [u'] w' = (res, reqs, w'')"
    by (cases "for_url send c p [u'] w'") blast
  have "fst (snd (for_url send c p [u'] w')) = [request_of c u' p]"
    by (rule for_url_single_sent)
  with fb have reqs: "reqs = [request_of c u' p]"
    by simp
  have "for_url send c p [u, u'] w = (res, request_of c u p # reqs, w'')"
    using for_url_continue [OF assms, of "[u']"] fb by simp
  with reqs fb show ?thesis
    by simp
qed



subsection \<open>The two endpoints and the payload\<close>

lemma for_url_two_sent:
  "fst (snd (for_url send c p [u, u'] w)) \<in> {[request_of c u p], [request_of c u p, request_of c u' p]}"
proof (cases "post send c u p w")
  case (Pair reply w')
  show ?thesis
  proof (cases reply)
    case (Inl e)
    with Pair show ?thesis by (simp add: for_url_transport_error)
  next
    case (Inr r)
    with Pair have sent: "post send c u p w = (Inr r, w')" by simp
    show ?thesis
    proof (cases "loop_body c u r")
      case (Return v)
      with sent show ?thesis by (simp add: for_url_return)
    next
      case Continue
      from for_url_continue_single [OF sent Continue, of u'] show ?thesis by auto
    next
      case (Raise e)
      with sent show ?thesis by (simp add: for_url_raise)
    qed
  qed
qed

lemma endpoints_init:
  "endpoint_primary (init a env) = base_url (init a env) @ ''/v1/chat/completions''"
  "endpoint_fallback (init a env) = base_url (init a env) @ ''/chat/completions''"
  by (simp_all add: init_def resolved_base_url_def Let_def)

text \<open>
  Claim C7. The constructor derives the two endpoints from the base URL by appending
  \<^verbatim>\<open>/v1/chat/completions\<close> and \<^verbatim>\<open>/chat/completions\<close>. The requests of a call are none, the
  one to the primary endpoint, or the one to the primary endpoint followed by the one to
  the fallback endpoint, and every request carries the payload built from the prompt
  at the start of the call.
\<close>

theorem two_endpoints_one_payload:
  "endpoint_primary (init a env) = base_url (init a env) @ ''/v1/chat/completions''
   \<and> endpoint_fallback (init a env) = base_url (init a env) @ ''/chat/completions''
   \<and> fst (snd (call send c prompt w)) \<in>
        {[],
         [request_of c (endpoint_primary c) (payload_of c prompt)],
         [request_of c (endpoint_primary c) (payload_of c prompt),
          request_of c (endpoint_fallback c) (payload_of c prompt)]}
   \<and> map req_json (fst (snd (call send c prompt w)))
        = replicate (length (fst (snd (call send c prompt w)))) (payload_of c prompt)"
proof -
  have sent: "fst (snd (call send c prompt w)) \<in>
        {[],
         [request_of c (endpoint_primary c) (payload_of c prompt)],
         [request_of c (endpoint_primary c) (payload_of c prompt),
          request_of c (endpoint_fallback c) (payload_of c prompt)]}"
    using for_url_two_sent [of send c "payload_of c prompt" "endpoint_primary c" "endpoint_fallback c" w]
    by (simp add: call_def)
  have "req_json (request_of c u (payload_of c prompt)) = payload_of c prompt" for u
    by (simp add: request_of_def)
  with sent have "map req_json (fst (snd (call send c prompt w)))
        = replicate (length (fst (snd (call send c prompt w)))) (payload_of c prompt)"
    by auto
  with sent show ?thesis
    by (simp only: endpoints_init simp_thms)
qed

subsection \<open>Both endpoints answer 422\<close>




lemma loop_body_api_error:
  assumes "url \<noteq> endpoint_primary c \<or> status_code r \<notin> {404, 422}"
    and "300 \<le> status_code r"
    and "json_of r = Some (JObj d)"
    and "map_of d ''error'' = Some (JObj e)"
    and "map_of e ''message'' = Some (JStr m)" and "m \<noteq> []"
  shows "loop_body c url r = Raise (RuntimeError (api_error_msg (status_code r)
      (case map_of e ''code'' of None \<Rightarrow> JNull | Some v \<Rightarrow> v) (JStr (take 300 m))))"
  using assms by (auto simp add: loop_body_def on_value_def)




subsection \<open>The statuses 401 and 403\<close>

lemma on_value_Inr: "on_value (Inr v) f = f v"
  by (simp add: on_value_def)

lemma on_value_Inl: "on_value (Inl e) f = Raise e"
  by (simp add: on_value_def)

lemma py_get_error: "py_get v k d = Inl e \<Longrightarrow> e = AttributeError"
  by (cases v) simp_all

lemma py_slice_error: "py_slice v n = Inl e \<Longrightarrow> e = TypeError"
  by (cases v) simp_all

lemma loop_body_error_branch:
  assumes "json_of r = Some data"
    and "(if 300 \<le> status_code r then Inr True else py_in ''error'' data) = Inr True"
  shows "loop_body c url r = Continue
    \<or> (\<exists>code excerpt. loop_body c url r = Raise (RuntimeError (api_error_msg (status_code r) code excerpt))
          \<and> ((\<exists>s. excerpt = JStr s \<and> length s \<le> 300) \<or> (\<exists>xs. excerpt = JArr xs \<and> length xs \<le> 300)))
    \<or> loop_body c url r = Raise AttributeError
    \<or> loop_body c url r = Raise TypeError"
proof (cases "py_get data ''error'' (JObj [])")
  case (Inl e)
  with assms show ?thesis
    by (simp add: loop_body_def on_value_Inr on_value_Inl py_get_error)
next
  case err: (Inr err)
  show ?thesis
  proof (cases "py_get err ''code'' JNull")
    case (Inl e)
    with assms err show ?thesis
      by (simp add: loop_body_def on_value_Inr on_value_Inl py_get_error)
  next
    case code: (Inr code)
    show ?thesis
    proof (cases "py_get err ''message'' JNull")
      case (Inl e)
      with assms err code show ?thesis
        by (simp add: loop_body_def on_value_Inr on_value_Inl py_get_error)
    next
      case m: (Inr m)
      define msg where "msg = (if truthy m then m else JStr (py_str data))"
      have body: "loop_body c url r =
          (if url = endpoint_primary c \<and> status_code r \<in> {404, 422} then Continue
           else on_value (py_slice msg 300) (\<lambda>excerpt.
                  Raise (RuntimeError (api_error_msg (status_code r) code excerpt))))"
        using assms err code m by (auto simp add: loop_body_def on_value_Inr msg_def)
      show ?thesis
      proof (cases "py_slice msg 300")
        case (Inl e)
        then have "e = TypeError" by (rule py_slice_error)
        with Inl body show ?thesis
          by (simp add: on_value_Inr on_value_Inl)
      next
        case (Inr excerpt)
        then have "(\<exists>s. excerpt = JStr s \<and> length s \<le> 300) \<or> (\<exists>xs. excerpt = JArr xs \<and> length xs \<le> 300)"
          by (cases msg) auto
        moreover have "loop_body c url r = Continue \<or> loop_body c url r =
            Raise (RuntimeError (api_error_msg (status_code r) code excerpt))"
          using Inr body by (simp add: on_value_Inr)
        ultimately show ?thesis
          by blast
      qed
    qed
  qed
qed

text \<open>A parsed body with the key \<^verbatim>\<open>error\<close> is never a success, whatever the status and
  the value under the key.\<close>

lemma loop_body_error_key_never_returns:
  assumes "json_of r = Some (JObj kvs)" and "map_of kvs ''error'' \<noteq> None"
  shows "loop_body c url r \<noteq> Return v"
proof -
  from assms(2)
  have "(if 300 \<le> status_code r then Inr True else py_in ''error'' (JObj kvs)) = Inr True"
    by simp
  from loop_body_error_branch [OF assms(1) this, of c url] show ?thesis
    by auto
qed

lemma unauthorized_msg_not_api_error:
  "unauthorized_msg url body \<noteq> api_error_msg status code excerpt"
  by (simp add: api_error_msg_def unauthorized_msg_def)

lemma loop_body_auth_status:
  assumes "status_code r \<in> {401, 403}"
  shows "\<exists>e. loop_body c url r = Raise e
     \<and> (json_of r = None \<longrightarrow> e = RuntimeError (unauthorized_msg url (text_of r)))
     \<and> (json_of r \<noteq> None \<longrightarrow> e \<noteq> RuntimeError (unauthorized_msg url (text_of r)))
     \<and> (\<forall>d er t. json_of r = Some (JObj d) \<and> map_of d ''error'' = Some (JObj er)
           \<and> map_of er ''message'' = Some (JStr t) \<and> t \<noteq> [] \<longrightarrow>
         e = RuntimeError (api_error_msg (status_code r)
               (case map_of er ''code'' of None \<Rightarrow> JNull | Some v \<Rightarrow> v) (JStr (take 300 t))))"
proof (cases "json_of r")
  case None
  with assms show ?thesis
    by (auto simp add: loop_body_def)
next
  case (Some data)
  from assms have high: "300 \<le> status_code r" and other: "status_code r \<notin> {404, 422}"
    by auto
  then have "loop_body c url r \<noteq> Continue"
    using Some by (simp add: loop_body_def on_value_def Let_def split: sum.splits)
  moreover from high
  have "(if 300 \<le> status_code r then Inr True else py_in ''error'' data) = Inr True"
    by simp
  from loop_body_error_branch [OF Some this, of c url]
  have "loop_body c url r = Continue
    \<or> (\<exists>code excerpt. loop_body c url r = Raise (RuntimeError (api_error_msg (status_code r) code excerpt)))
    \<or> loop_body c url r = Raise AttributeError
    \<or> loop_body c url r = Raise TypeError"
    by blast
  ultimately obtain e where e: "loop_body c url r = Raise e"
    and kind: "(\<exists>code excerpt. e = RuntimeError (api_error_msg (status_code r) code excerpt))
      \<or> e = AttributeError \<or> e = TypeError"
    by auto
  from kind have neq: "e \<noteq> RuntimeError (unauthorized_msg url (text_of r))"
    by (auto simp add: unauthorized_msg_not_api_error)
  have api: "e = RuntimeError (api_error_msg (status_code r)
          (case map_of er ''code'' of None \<Rightarrow> JNull | Some v \<Rightarrow> v) (JStr (take 300 t)))"
    if "json_of r = Some (JObj d) \<and> map_of d ''error'' = Some (JObj er)
      \<and> map_of er ''message'' = Some (JStr t) \<and> t \<noteq> []" for d er t
    using that other high e loop_body_api_error [of url c r d er t] by simp
  show ?thesis
  proof (intro exI [of _ e] conjI allI impI)
    show "loop_body c url r = Raise e" by (rule e)
  next
    assume "json_of r = None"
    with Some show "e = RuntimeError (unauthorized_msg url (text_of r))" by simp
  next
    show "e \<noteq> RuntimeError (unauthorized_msg url (text_of r))" by (rule neq)
  next
    fix d er t
    assume "json_of r = Some (JObj d) \<and> map_of d ''error'' = Some (JObj er)
      \<and> map_of er ''message'' = Some (JStr t) \<and> t \<noteq> []"
    then show "e = RuntimeError (api_error_msg (status_code r)
          (case map_of er ''code'' of None \<Rightarrow> JNull | Some v \<Rightarrow> v) (JStr (take 300 t)))"
      by (rule api)
  qed
qed

text \<open>
  Claim C2, as amended. The source tests for 401 and 403 only where the body does not
  decode as JSON. With a credential: when the response of the current endpoint (the
  primary one, or the fallback after the primary response made the loop continue) has
  status 401 or 403, the call raises at that response and sends no further request.
  The exception is the \<^verbatim>\<open>RuntimeError\<close> "Unauthorized at ..." when the body does not
  decode as JSON, and never when it does: for a JSON object whose \<^verbatim>\<open>error\<close> is an object
  with a non-empty text \<^verbatim>\<open>message\<close> it is the \<^verbatim>\<open>RuntimeError\<close>
  "GitHub Models API error ..." with that status, the code and the first 300 characters
  of the message.
\<close>

theorem auth_status_ends_call:
  assumes "\<not> no_key (api_key c)"
    and "send (request_of c (endpoint_primary c) (payload_of c prompt)) w = (Inr r1, w1)"
  shows "(status_code r1 \<in> {401, 403} \<longrightarrow>
      (\<exists>e. call send c prompt w =
              (Inl e, [request_of c (endpoint_primary c) (payload_of c prompt)], w1)
          \<and> (json_of r1 = None \<longrightarrow> e = RuntimeError (unauthorized_msg (endpoint_primary c) (text_of r1)))
          \<and> (json_of r1 \<noteq> None \<longrightarrow> e \<noteq> RuntimeError (unauthorized_msg (endpoint_primary c) (text_of r1)))
          \<and> (\<forall>d er t. json_of r1 = Some (JObj d) \<and> map_of d ''error'' = Some (JObj er)
                \<and> map_of er ''message'' = Some (JStr t) \<and> t \<noteq> [] \<longrightarrow>
              e = RuntimeError (api_error_msg (status_code r1)
                    (case map_of er ''code'' of None \<Rightarrow> JNull | Some v \<Rightarrow> v) (JStr (take 300 t))))))
    \<and> (loop_body c (endpoint_primary c) r1 = Continue
        \<and> send (request_of c (endpoint_fallback c) (payload_of c prompt)) w1 = (Inr r2, w2)
        \<and> status_code r2 \<in> {401, 403} \<longrightarrow>
      (\<exists>e. call send c prompt w =
              (Inl e, [request_of c (endpoint_primary c) (payload_of c prompt),
                       request_of c (endpoint_fallback c) (payload_of c prompt)], w2)
          \<and> (json_of r2 = None \<longrightarrow> e = RuntimeError (unauthorized_msg (endpoint_fallback c) (text_of r2)))
          \<and> (json_of r2 \<noteq> None \<longrightarrow> e \<noteq> RuntimeError (unauthorized_msg (endpoint_fallback c) (text_of r2)))
          \<and> (\<forall>d er t. json_of r2 = Some (JObj d) \<and> map_of d ''error'' = Some (JObj er)
                \<and> map_of er ''message'' = Some (JStr t) \<and> t \<noteq> [] \<longrightarrow>
              e = RuntimeError (api_error_msg (status_code r2)
                    (case map_of er ''code'' of None \<Rightarrow> JNull | Some v \<Rightarrow> v) (JStr (take 300 t))))))"
proof (intro conjI impI)
  let ?p = "payload_of c prompt"
  have sent1: "post send c (endpoint_primary c) ?p w = (Inr r1, w1)"
    using assms(2) by (simp add: post_def)
  {
    assume "status_code r1 \<in> {401, 403}"
    then obtain e where e: "loop_body c (endpoint_primary c) r1 = Raise e"
      and kind: "(json_of r1 = None \<longrightarrow> e = RuntimeError (unauthorized_msg (endpoint_primary c) (text_of r1)))
          \<and> (json_of r1 \<noteq> None \<longrightarrow> e \<noteq> RuntimeError (unauthorized_msg (endpoint_primary c) (text_of r1)))
          \<and> (\<forall>d er t. json_of r1 = Some (JObj d) \<and> map_of d ''error'' = Some (JObj er)
                \<and> map_of er ''message'' = Some (JStr t) \<and> t \<noteq> [] \<longrightarrow>
              e = RuntimeError (api_error_msg (status_code r1)
                    (case map_of er ''code'' of None \<Rightarrow> JNull | Some v \<Rightarrow> v) (JStr (take 300 t))))"
      using loop_body_auth_status by blast
    have ended: "call send c prompt w = (Inl e, [request_of c (endpoint_primary c) ?p], w1)"
      using for_url_raise [OF sent1 e] assms(1) by (simp add: call_def)
    show "\<exists>e. call send c prompt w = (Inl e, [request_of c (endpoint_primary c) ?p], w1)
          \<and> (json_of r1 = None \<longrightarrow> e = RuntimeError (unauthorized_msg (endpoint_primary c) (text_of r1)))
          \<and> (json_of r1 \<noteq> None \<longrightarrow> e \<noteq> RuntimeError (unauthorized_msg (endpoint_primary c) (text_of r1)))
          \<and> (\<forall>d er t. json_of r1 = Some (JObj d) \<and> map_of d ''error'' = Some (JObj er)
                \<and> map_of er ''message'' = Some (JStr t) \<and> t \<noteq> [] \<longrightarrow>
              e = RuntimeError (api_error_msg (status_code r1)
                    (case map_of er ''code'' of None \<Rightarrow> JNull | Some v \<Rightarrow> v) (JStr (take 300 t))))"
      by (rule exI [of _ e], rule conjI [OF ended kind])
  }
  {
    assume fb: "loop_body c (endpoint_primary c) r1 = Continue
        \<and> send (request_of c (endpoint_fallback c) ?p) w1 = (Inr r2, w2)
        \<and> status_code r2 \<in> {401, 403}"
    then have sent2: "post send c (endpoint_fallback c) ?p w1 = (Inr r2, w2)"
      by (simp add: post_def)
    from fb obtain e where e: "loop_body c (endpoint_fallback c) r2 = Raise e"
      and kind: "(json_of r2 = None \<longrightarrow> e = RuntimeError (unauthorized_msg (endpoint_fallback c) (text_of r2)))
          \<and> (json_of r2 \<noteq> None \<longrightarrow> e \<noteq> RuntimeError (unauthorized_msg (endpoint_fallback c) (text_of r2)))
          \<and> (\<forall>d er t. json_of r2 = Some (JObj d) \<and> map_of d ''error'' = Some (JObj er)
                \<and> map_of er ''message'' = Some (JStr t) \<and> t \<noteq> [] \<longrightarrow>
              e = RuntimeError (api_error_msg (status_code r2)
                    (case map_of er ''code'' of None \<Rightarrow> JNull | Some v \<Rightarrow> v) (JStr (take 300 t))))"
      using loop_body_auth_status by blast
    have "for_url send c ?p [endpoint_fallback c] w1 = (Inl e, [request_of c (endpoint_fallback c) ?p], w2)"
      by (rule for_url_raise [OF sent2 e])
    with for_url_continue [OF sent1 conjunct1 [OF fb], of "[endpoint_fallback c]"] assms(1)
    have ended: "call send c prompt w = (Inl e, [request_of c (endpoint_primary c) ?p,
                       request_of c (endpoint_fallback c) ?p], w2)"
      by (simp add: call_def)
    show "\<exists>e. call send c prompt w =
              (Inl e, [request_of c (endpoint_primary c) ?p,
                       request_of c (endpoint_fallback c) ?p], w2)
          \<and> (json_of r2 = None \<longrightarrow> e = RuntimeError (unauthorized_msg (endpoint_fallback c) (text_of r2)))
          \<and> (json_of r2 \<noteq> None \<longrightarrow> e \<noteq> RuntimeError (unauthorized_msg (endpoint_fallback c) (text_of r2)))
          \<and> (\<forall>d er t. json_of r2 = Some (JObj d) \<and> map_of d ''error'' = Some (JObj er)
                \<and> map_of er ''message'' = Some (JStr t) \<and> t \<noteq> [] \<longrightarrow>
              e = RuntimeError (api_error_msg (status_code r2)
                    (case map_of er ''code'' of None \<Rightarrow> JNull | Some v \<Rightarrow> v) (JStr (take 300 t))))"
      by (rule exI [of _ e], rule conjI [OF ended kind])
  }
qed

text \<open>A 401 with a plain-text body at the primary endpoint; and a 403 with a plain-text
  body at the fallback, after a 404 with an HTML page at the primary endpoint.\<close>

theorem auth_status_witness:
  "call (\<lambda>rq n. (Inr \<lparr>status_code = 401, text_of = ''Bad credentials'', json_of = None\<rparr>, Suc n))
      (init \<lparr>arg_api_key = Some ''expired'', arg_base_url = None, arg_model = None,
        arg_max_tokens = None, arg_temperature = None, arg_timeout = None,
        arg_trust_env = None\<rparr> Map.empty) ''describe a chair'' (0::nat)
   = (Inl (RuntimeError (unauthorized_msg ''https://models.github.ai/inference/v1/chat/completions''
          ''Bad credentials'')),
      [request_of (init \<lparr>arg_api_key = Some ''expired'', arg_base_url = None, arg_model = None,
          arg_max_tokens = None, arg_temperature = None, arg_timeout = None,
          arg_trust_env = None\<rparr> Map.empty)
        ''https://models.github.ai/inference/v1/chat/completions''
        (payload_of (init \<lparr>arg_api_key = Some ''expired'', arg_base_url = None, arg_model = None,
          arg_max_tokens = None, arg_temperature = None, arg_timeout = None,
          arg_trust_env = None\<rparr> Map.empty) ''describe a chair'')], 1)
   \<and> call (\<lambda>rq n. (if req_url rq = ''https://models.github.ai/inference/v1/chat/completions''
                 then Inr \<lparr>status_code = 404, text_of = ''<html>Not Found</html>'', json_of = None\<rparr>
                 else Inr \<lparr>status_code = 403, text_of = ''Forbidden'', json_of = None\<rparr>, Suc n))
      (init \<lparr>arg_api_key = Some ''expired'', arg_base_url = None, arg_model = None,
        arg_max_tokens = None, arg_temperature = None, arg_timeout = None,
        arg_trust_env = None\<rparr> Map.empty) ''describe a chair'' (0::nat)
   = (Inl (RuntimeError (unauthorized_msg ''https://models.github.ai/inference/chat/completions''
          ''Forbidden'')),
      [request_of (init \<lparr>arg_api_key = Some ''expired'', arg_base_url = None, arg_model = None,
          arg_max_tokens = None, arg_temperature = None, arg_timeout = None,
          arg_trust_env = None\<rparr> Map.empty)
        ''https://models.github.ai/inference/v1/chat/completions''
        (payload_of (init \<lparr>arg_api_key = Some ''expired'', arg_base_url = None, arg_model = None,
          arg_max_tokens = None, arg_temperature = None, arg_timeout = None,
          arg_trust_env = None\<rparr> Map.empty) ''describe a chair''),
       request_of (init \<lparr>arg_api_key = Some ''expired'', arg_base_url = None, arg_model = None,
          arg_max_tokens = None, arg_temperature = None, arg_timeout = None,
          arg_trust_env = None\<rparr> Map.empty)
        ''https://models.github.ai/inference/chat/completions''
        (payload_of (init \<lparr>arg_api_key = Some ''expired'', arg_base_url = None, arg_model = None,
          arg_max_tokens = None, arg_temperature = None, arg_timeout = None,
          arg_trust_env = None\<rparr> Map.empty) ''describe a chair'')], 2)"
proof -
  let ?c = "init \<lparr>arg_api_key = Some ''expired'', arg_base_url = None, arg_model = None,
        arg_max_tokens = None, arg_temperature = None, arg_timeout = None,
        arg_trust_env = None\<rparr> Map.empty"
  have key: "\<not> no_key (api_key ?c)"
    by (simp add: api_key_init)
  have urls: "endpoint_primary ?c = ''https://models.github.ai/inference/v1/chat/completions''"
    "endpoint_fallback ?c = ''https://models.github.ai/inference/chat/completions''"
    by (simp_all add: init_def resolved_base_url_def Let_def rstrip_def)
  show ?thesis
    using auth_status_ends_call [of ?c
        "\<lambda>rq n. (Inr \<lparr>status_code = 401, text_of = ''Bad credentials'', json_of = None\<rparr>, Suc n)"
        "''describe a chair''" "0::nat"
        "\<lparr>status_code = 401, text_of = ''Bad credentials'', json_of = None\<rparr>" "1::nat"
        "\<lparr>status_code = 401, text_of = ''Bad credentials'', json_of = None\<rparr>" "2::nat", OF key]
      auth_status_ends_call [of ?c
        "\<lambda>rq n. (if req_url rq = ''https://models.github.ai/inference/v1/chat/completions''
                 then Inr \<lparr>status_code = 404, text_of = ''<html>Not Found</html>'', json_of = None\<rparr>
                 else Inr \<lparr>status_code = 403, text_of = ''Forbidden'', json_of = None\<rparr>, Suc n)"
        "''describe a chair''" "0::nat"
        "\<lparr>status_code = 404, text_of = ''<html>Not Found</html>'', json_of = None\<rparr>" "1::nat"
        "\<lparr>status_code = 403, text_of = ''Forbidden'', json_of = None\<rparr>" "2::nat", OF key]
    by (simp add: urls request_of_def loop_body_def)
qed

text \<open>The claim as the spec states it fails: the primary endpoint answers 401 with a JSON
  error body, and the call raises the API error, not "Unauthorized at ...".\<close>

theorem auth_status_counterexample:
  "fst (call (\<lambda>rq n. (Inr \<lparr>status_code = 401, text_of = ''(the JSON text)'',
            json_of = Some (JObj [(''error'', JObj [(''code'', JStr ''unauthorized''),
              (''message'', JStr ''Bad credentials'')])])\<rparr>, Suc n))
      (init \<lparr>arg_api_key = Some ''expired'', arg_base_url = None, arg_model = None,
        arg_max_tokens = None, arg_temperature = None, arg_timeout = None,
        arg_trust_env = None\<rparr> Map.empty) ''describe a chair'' (0::nat))
     = Inl (RuntimeError ''GitHub Models API error 401 (unauthorized): Bad credentials'')
   \<and> fst (call (\<lambda>rq n. (Inr \<lparr>status_code = 401, text_of = ''(the JSON text)'',
            json_of = Some (JObj [(''error'', JObj [(''code'', JStr ''unauthorized''),
              (''message'', JStr ''Bad credentials'')])])\<rparr>, Suc n))
      (init \<lparr>arg_api_key = Some ''expired'', arg_base_url = None, arg_model = None,
        arg_max_tokens = None, arg_temperature = None, arg_timeout = None,
        arg_trust_env = None\<rparr> Map.empty) ''describe a chair'' (0::nat))
     \<noteq> Inl (RuntimeError (unauthorized_msg
            ''https://models.github.ai/inference/v1/chat/completions'' ''(the JSON text)''))"
  by (simp add: call_def init_def resolved_base_url_def Let_def rstrip_def post_def loop_body_def on_value_def
      api_error_msg_def str_int_def digits.simps unauthorized_msg_def)

subsection \<open>Trailing slashes of the base URL\<close>







subsection \<open>The messages of the errors\<close>

lemma py_item_error: "py_item v k = Inl e \<Longrightarrow> e = KeyError \<or> e = TypeError"
  by (cases v) (simp_all split: option.splits)

lemma py_index_error: "py_index v n = Inl e \<Longrightarrow> e = IndexError \<or> e = KeyError \<or> e = TypeError"
  by (cases v) (simp_all split: if_splits)

lemma py_in_error: "py_in k v = Inl e \<Longrightarrow> e = TypeError"
  by (cases v) simp_all

lemma loop_body_success_branch:
  assumes "json_of r = Some data"
    and "(if 300 \<le> status_code r then Inr True else py_in ''error'' data) = Inr False"
  shows "(\<exists>v. loop_body c url r = Return v)
    \<or> loop_body c url r = Raise KeyError
    \<or> loop_body c url r = Raise TypeError
    \<or> loop_body c url r = Raise IndexError"
proof -
  have body: "loop_body c url r =
      on_value (py_item data ''choices'') (\<lambda>choices.
      on_value (py_index choices 0) (\<lambda>choice.
      on_value (py_item choice ''message'') (\<lambda>message.
      on_value (py_item message ''content'') Return)))"
    using assms by (simp add: loop_body_def on_value_Inr)
  show ?thesis
  proof (cases "py_item data ''choices''")
    case (Inl e)
    with body py_item_error [OF Inl] show ?thesis
      by (auto simp add: on_value_Inl)
  next
    case choices: (Inr choices)
    show ?thesis
    proof (cases "py_index choices 0")
      case (Inl e)
      with body choices py_index_error [OF Inl] show ?thesis
        by (auto simp add: on_value_Inl on_value_Inr)
    next
      case choice: (Inr choice)
      show ?thesis
      proof (cases "py_item choice ''message''")
        case (Inl e)
        with body choices choice py_item_error [OF Inl] show ?thesis
          by (auto simp add: on_value_Inl on_value_Inr)
      next
        case message: (Inr message)
        show ?thesis
        proof (cases "py_item message ''content''")
          case (Inl e)
          with body choices choice message py_item_error [OF Inl] show ?thesis
            by (auto simp add: on_value_Inl on_value_Inr)
        next
          case (Inr content)
          with body choices choice message show ?thesis
            by (simp add: on_value_Inr)
        qed
      qed
    qed
  qed
qed

lemma py_get_JObj: "py_get v k dflt = Inr x \<Longrightarrow> \<exists>kvs. v = JObj kvs"
  by (cases v) simp_all

lemma loop_body_api_error_form:
  assumes raised: "loop_body c url r = Raise (RuntimeError m)"
    and parsed: "json_of r = Some data"
  shows "\<exists>d er excerpt. data = JObj d
      \<and> (case map_of d ''error'' of None \<Rightarrow> JObj [] | Some v \<Rightarrow> v) = JObj er
      \<and> \<not> (url = endpoint_primary c \<and> status_code r \<in> {404, 422})
      \<and> m = api_error_msg (status_code r)
            (case map_of er ''code'' of None \<Rightarrow> JNull | Some v \<Rightarrow> v) excerpt
      \<and> ((\<exists>t. map_of er ''message'' = Some (JStr t) \<and> t \<noteq> [] \<and> excerpt = JStr (take 300 t))
          \<or> (\<exists>xs. map_of er ''message'' = Some (JArr xs) \<and> xs \<noteq> []
                \<and> excerpt = JArr (take 300 xs))
          \<or> ((case map_of er ''message'' of None \<Rightarrow> True | Some v \<Rightarrow> \<not> truthy v)
                \<and> excerpt = JStr (take 300 (py_str (JObj d)))))"
proof -
  have trigger: "(if 300 \<le> status_code r then Inr True else py_in ''error'' data) = Inr True"
  proof (cases "if 300 \<le> status_code r then Inr True else py_in ''error'' data")
    case (Inl e)
    then have "e = TypeError"
      by (auto split: if_splits dest: py_in_error)
    with Inl parsed raised show ?thesis
      by (simp add: loop_body_def on_value_Inl)
  next
    case (Inr failed)
    show ?thesis
    proof (cases failed)
      case True
      with Inr show ?thesis by simp
    next
      case False
      with Inr loop_body_success_branch [OF parsed, of c url] raised show ?thesis
        by auto
    qed
  qed
  then have body: "loop_body c url r =
      on_value (py_get data ''error'' (JObj [])) (\<lambda>err.
      on_value (py_get err ''code'' JNull) (\<lambda>code.
      on_value (py_get err ''message'' JNull) (\<lambda>m.
        let msg = (if truthy m then m else JStr (py_str data)) in
        if url = endpoint_primary c \<and> status_code r \<in> {404, 422} then Continue
        else
          on_value (py_slice msg 300) (\<lambda>excerpt.
            Raise (RuntimeError (api_error_msg (status_code r) code excerpt))))))"
    using parsed by (simp add: loop_body_def on_value_Inr)
  obtain err where err: "py_get data ''error'' (JObj []) = Inr err"
  proof (cases "py_get data ''error'' (JObj [])")
    case (Inl e)
    with body raised py_get_error [OF Inl] show ?thesis
      by (simp add: on_value_Inl)
  next
    case (Inr err)
    then show ?thesis by (rule that)
  qed
  then obtain d where d: "data = JObj d"
    using py_get_JObj by blast
  obtain code where code: "py_get err ''code'' JNull = Inr code"
  proof (cases "py_get err ''code'' JNull")
    case (Inl e)
    with body err raised py_get_error [OF Inl] show ?thesis
      by (simp add: on_value_Inl on_value_Inr)
  next
    case (Inr code)
    then show ?thesis by (rule that)
  qed
  then obtain er where er: "err = JObj er"
    using py_get_JObj by blast
  from err d er have error_field:
    "(case map_of d ''error'' of None \<Rightarrow> JObj [] | Some v \<Rightarrow> v) = JObj er"
    by simp
  from code er have code_eq: "code = (case map_of er ''code'' of None \<Rightarrow> JNull | Some v \<Rightarrow> v)"
    by simp
  define m0 where "m0 = (case map_of er ''message'' of None \<Rightarrow> JNull | Some v \<Rightarrow> v)"
  define msg where "msg = (if truthy m0 then m0 else JStr (py_str data))"
  have message: "py_get err ''message'' JNull = Inr m0"
    using er by (simp add: m0_def)
  have rest: "loop_body c url r =
      (if url = endpoint_primary c \<and> status_code r \<in> {404, 422} then Continue
       else on_value (py_slice msg 300) (\<lambda>excerpt.
              Raise (RuntimeError (api_error_msg (status_code r) code excerpt))))"
    using body err code message by (auto simp add: on_value_Inr msg_def)
  with raised have guard: "\<not> (url = endpoint_primary c \<and> status_code r \<in> {404, 422})"
    by (auto split: if_splits)
  with rest raised have sliced: "on_value (py_slice msg 300) (\<lambda>excerpt.
      Raise (RuntimeError (api_error_msg (status_code r) code excerpt))) = Raise (RuntimeError m)"
    by auto
  obtain excerpt where excerpt: "py_slice msg 300 = Inr excerpt"
    and m: "m = api_error_msg (status_code r) code excerpt"
  proof (cases "py_slice msg 300")
    case (Inl e)
    with sliced py_slice_error [OF Inl] show ?thesis
      by (simp add: on_value_Inl)
  next
    case (Inr excerpt)
    with sliced have "m = api_error_msg (status_code r) code excerpt"
      by (simp add: on_value_Inr)
    with Inr show ?thesis by (rule that)
  qed
  have form: "((\<exists>t. map_of er ''message'' = Some (JStr t) \<and> t \<noteq> [] \<and> excerpt = JStr (take 300 t))
        \<or> (\<exists>xs. map_of er ''message'' = Some (JArr xs) \<and> xs \<noteq> []
              \<and> excerpt = JArr (take 300 xs))
        \<or> ((case map_of er ''message'' of None \<Rightarrow> True | Some v \<Rightarrow> \<not> truthy v)
              \<and> excerpt = JStr (take 300 (py_str (JObj d)))))"
  proof (cases "truthy m0")
    case True
    then have "msg = m0" by (simp add: msg_def)
    with excerpt True show ?thesis
      by (cases m0) (auto simp add: m0_def split: option.splits)
  next
    case False
    then have "msg = JStr (py_str data)" by (simp add: msg_def)
    with excerpt False d show ?thesis
      by (auto simp add: m0_def split: option.splits)
  qed
  from d error_field guard m code_eq form show ?thesis
    by blast
qed

lemma loop_body_runtime_error:
  assumes "loop_body c url r = Raise (RuntimeError m)"
  shows "((json_of r = None \<and> status_code r \<in> {401, 403}
        \<and> m = unauthorized_msg url (text_of r))
    \<or> (json_of r = None \<and> status_code r \<notin> {401, 403, 404, 405}
        \<and> m = non_json_msg (status_code r) url (text_of r))
    \<or> (\<exists>d er excerpt. json_of r = Some (JObj d)
        \<and> (case map_of d ''error'' of None \<Rightarrow> JObj [] | Some v \<Rightarrow> v) = JObj er
        \<and> \<not> (url = endpoint_primary c \<and> status_code r \<in> {404, 422})
        \<and> m = api_error_msg (status_code r)
            (case map_of er ''code'' of None \<Rightarrow> JNull | Some v \<Rightarrow> v) excerpt
        \<and> ((\<exists>t. map_of er ''message'' = Some (JStr t) \<and> t \<noteq> [] \<and> excerpt = JStr (take 300 t))
        \<or> (\<exists>xs. map_of er ''message'' = Some (JArr xs) \<and> xs \<noteq> []
              \<and> excerpt = JArr (take 300 xs))
        \<or> ((case map_of er ''message'' of None \<Rightarrow> True | Some v \<Rightarrow> \<not> truthy v)
              \<and> excerpt = JStr (take 300 (py_str (JObj d)))))))"
proof (cases "json_of r")
  case None
  with assms show ?thesis
    by (auto simp add: loop_body_def split: if_splits)
next
  case (Some data)
  from loop_body_api_error_form [OF assms Some] Some show ?thesis
    by blast
qed

lemma for_url_runtime_error:
  assumes "fst (for_url send c p urls w) = Inl (RuntimeError m)"
  shows "m = no_endpoint_msg
    \<or> (\<exists>url r w0 w1. url \<in> set urls \<and> send (request_of c url p) w0 = (Inr r, w1)
          \<and> loop_body c url r = Raise (RuntimeError m))"
  using assms
proof (induction urls arbitrary: w)
  case Nil
  then show ?case by simp
next
  case (Cons url urls)
  obtain reply w' where sent: "post send c url p w = (reply, w')"
    by (cases "post send c url p w") blast
  show ?case
  proof (cases reply)
    case (Inl e)
    with sent Cons.prems show ?thesis
      by (simp add: for_url_transport_error)
  next
    case (Inr r)
    with sent have got: "post send c url p w = (Inr r, w')"
      by simp
    then have transport: "send (request_of c url p) w = (Inr r, w')"
      by (simp add: post_def)
    show ?thesis
    proof (cases "loop_body c url r")
      case (Return v)
      with got Cons.prems show ?thesis
        by (simp add: for_url_return)
    next
      case Continue
      with got Cons.prems have "fst (for_url send c p urls w') = Inl (RuntimeError m)"
        by (simp add: for_url_continue split: prod.splits)
      from Cons.IH [OF this] show ?thesis
        by auto
    next
      case (Raise e)
      with got Cons.prems have "e = RuntimeError m"
        by (simp add: for_url_raise)
      with Raise transport show ?thesis
        by auto
    qed
  qed
qed

text \<open>
  Claim C8, as amended. Not every failure carries the URL, the status and an excerpt of
  the body. Every \<^verbatim>\<open>RuntimeError\<close> that a call raises has one of five messages. Two are
  fixed texts: the one of the missing credential and the one of the exhausted
  endpoints. The other three are built from a response \<open>r\<close> that the transport gave for
  the request to one of the two endpoints. "Unauthorized at ..." carries the URL and
  the first 300 characters of the raw body, not the status. "Non-JSON response ..."
  carries the status, the URL and the first 500 characters of the raw body.
  "GitHub Models API error ..." carries the status, the \<^verbatim>\<open>code\<close> of the \<^verbatim>\<open>error\<close> object of
  the parsed body (\<^verbatim>\<open>None\<close> when there is none) and an excerpt, not the URL; the excerpt
  is the first 300 characters of the error's \<^verbatim>\<open>message\<close> when that is a non-empty text
  (its first 300 items when it is a non-empty list), and the first 300 characters of
  \<^verbatim>\<open>str(data)\<close>, the parsed body as Python prints it, when the message is absent or
  falsy.
\<close>

theorem runtime_error_forms:
  assumes "fst (call send c prompt w) = Inl (RuntimeError m)"
  shows "m = ''No API key. Set GITHUB_TOKEN or OPENAI_API_KEY.''
    \<or> m = ''Failed to reach a working chat/completions endpoint on GitHub Models.''
    \<or> (\<exists>url r w0 w1. url \<in> {endpoint_primary c, endpoint_fallback c}
          \<and> send (request_of c url (payload_of c prompt)) w0 = (Inr r, w1)
          \<and> ((json_of r = None \<and> status_code r \<in> {401, 403}
              \<and> m = ''Unauthorized at '' @ url
                  @ ''. Check token (models:read) and daily limits. Body: ''
                  @ take 300 (text_of r))
          \<or> (json_of r = None \<and> status_code r \<notin> {401, 403, 404, 405}
              \<and> m = ''Non-JSON response '' @ str_int (status_code r) @ '' from '' @ url @ '': ''
                  @ take 500 (text_of r))
          \<or> (\<exists>d er excerpt. json_of r = Some (JObj d)
              \<and> (case map_of d ''error'' of None \<Rightarrow> JObj [] | Some v \<Rightarrow> v) = JObj er
              \<and> \<not> (url = endpoint_primary c \<and> status_code r \<in> {404, 422})
              \<and> m = ''GitHub Models API error '' @ str_int (status_code r) @ '' (''
                  @ py_str (case map_of er ''code'' of None \<Rightarrow> JNull | Some v \<Rightarrow> v) @ ''): ''
                  @ py_str excerpt
              \<and> ((\<exists>t. map_of er ''message'' = Some (JStr t) \<and> t \<noteq> [] \<and> excerpt = JStr (take 300 t))
              \<or> (\<exists>xs. map_of er ''message'' = Some (JArr xs) \<and> xs \<noteq> []
                    \<and> excerpt = JArr (take 300 xs))
              \<or> ((case map_of er ''message'' of None \<Rightarrow> True | Some v \<Rightarrow> \<not> truthy v)
                    \<and> excerpt = JStr (take 300 (py_str (JObj d))))))))"
proof (cases "no_key (api_key c)")
  case True
  with assms show ?thesis
    by (simp add: call_def no_api_key_msg_def)
next
  case False
  with assms have "fst (for_url send c (payload_of c prompt) [endpoint_primary c, endpoint_fallback c] w)
      = Inl (RuntimeError m)"
    by (simp add: call_def)
  from for_url_runtime_error [OF this] show ?thesis
  proof
    assume "m = no_endpoint_msg"
    then show ?thesis
      by (simp add: no_endpoint_msg_def)
  next
    assume "\<exists>url r w0 w1. url \<in> set [endpoint_primary c, endpoint_fallback c]
        \<and> send (request_of c url (payload_of c prompt)) w0 = (Inr r, w1)
        \<and> loop_body c url r = Raise (RuntimeError m)"
    then obtain url r w0 w1 where url: "url \<in> {endpoint_primary c, endpoint_fallback c}"
      and got: "send (request_of c url (payload_of c prompt)) w0 = (Inr r, w1)"
      and raised: "loop_body c url r = Raise (RuntimeError m)"
      by auto
    from loop_body_runtime_error [OF raised]
    have "((json_of r = None \<and> status_code r \<in> {401, 403}
                \<and> m = ''Unauthorized at '' @ url
                    @ ''. Check token (models:read) and daily limits. Body: ''
                    @ take 300 (text_of r))
            \<or> (json_of r = None \<and> status_code r \<notin> {401, 403, 404, 405}
                \<and> m = ''Non-JSON response '' @ str_int (status_code r) @ '' from '' @ url @ '': ''
                    @ take 500 (text_of r))
            \<or> (\<exists>d er excerpt. json_of r = Some (JObj d)
                \<and> (case map_of d ''error'' of None \<Rightarrow> JObj [] | Some v \<Rightarrow> v) = JObj er
                \<and> \<not> (url = endpoint_primary c \<and> status_code r \<in> {404, 422})
                \<and> m = ''GitHub Models API error '' @ str_int (status_code r) @ '' (''
                    @ py_str (case map_of er ''code'' of None \<Rightarrow> JNull | Some v \<Rightarrow> v) @ ''): ''
                    @ py_str excerpt
                \<and> ((\<exists>t. map_of er ''message'' = Some (JStr t) \<and> t \<noteq> [] \<and> excerpt = JStr (take 300 t))
                \<or> (\<exists>xs. map_of er ''message'' = Some (JArr xs) \<and> xs \<noteq> []
                      \<and> excerpt = JArr (take 300 xs))
                \<or> ((case map_of er ''message'' of None \<Rightarrow> True | Some v \<Rightarrow> \<not> truthy v)
                      \<and> excerpt = JStr (take 300 (py_str (JObj d)))))))"
      by (simp only: unauthorized_msg_def non_json_msg_def api_error_msg_def)
    with url got show ?thesis
      by blast
  qed
qed

text \<open>The primary endpoint answers 500 with the error \<^verbatim>\<open>server_error\<close>.\<close>

theorem runtime_error_witness:
  "fst (call (\<lambda>rq n. (Inr \<lparr>status_code = 500, text_of = ''(the JSON text)'',
                json_of = Some (JObj [(''error'', JObj [(''code'', JStr ''server_error''),
                  (''message'', JStr ''Internal error'')])])\<rparr> :: string + response, Suc n))
      (init \<lparr>arg_api_key = Some ''token'', arg_base_url = None, arg_model = None,
        arg_max_tokens = None, arg_temperature = None, arg_timeout = None,
        arg_trust_env = None\<rparr> Map.empty) ''describe a chair'' (0::nat))
     = Inl (RuntimeError ''GitHub Models API error 500 (server_error): Internal error'')
   \<and> (''GitHub Models API error 500 (server_error): Internal error'' = ''No API key. Set GITHUB_TOKEN or OPENAI_API_KEY.''
    \<or> ''GitHub Models API error 500 (server_error): Internal error'' = ''Failed to reach a working chat/completions endpoint on GitHub Models.''
    \<or> (\<exists>url r w0 w1. url \<in> {endpoint_primary (init \<lparr>arg_api_key = Some ''token'', arg_base_url = None, arg_model = None,
        arg_max_tokens = None, arg_temperature = None, arg_timeout = None,
        arg_trust_env = None\<rparr> Map.empty), endpoint_fallback (init \<lparr>arg_api_key = Some ''token'', arg_base_url = None, arg_model = None,
        arg_max_tokens = None, arg_temperature = None, arg_timeout = None,
        arg_trust_env = None\<rparr> Map.empty)}
          \<and> (\<lambda>rq n. (Inr \<lparr>status_code = 500, text_of = ''(the JSON text)'',
                json_of = Some (JObj [(''error'', JObj [(''code'', JStr ''server_error''),
                  (''message'', JStr ''Internal error'')])])\<rparr> :: string + response, Suc n)) (request_of (init \<lparr>arg_api_key = Some ''token'', arg_base_url = None, arg_model = None,
        arg_max_tokens = None, arg_temperature = None, arg_timeout = None,
        arg_trust_env = None\<rparr> Map.empty) url (payload_of (init \<lparr>arg_api_key = Some ''token'', arg_base_url = None, arg_model = None,
        arg_max_tokens = None, arg_temperature = None, arg_timeout = None,
        arg_trust_env = None\<rparr> Map.empty) ''describe a chair'')) w0 = (Inr r, w1)
          \<and> ((json_of r = None \<and> status_code r \<in> {401, 403}
              \<and> ''GitHub Models API error 500 (server_error): Internal error'' = ''Unauthorized at '' @ url
                  @ ''. Check token (models:read) and daily limits. Body: ''
                  @ take 300 (text_of r))
          \<or> (json_of r = None \<and> status_code r \<notin> {401, 403, 404, 405}
              \<and> ''GitHub Models API error 500 (server_error): Internal error'' = ''Non-JSON response '' @ str_int (status_code r) @ '' from '' @ url @ '': ''
                  @ take 500 (text_of r))
          \<or> (\<exists>d er excerpt. json_of r = Some (JObj d)
              \<and> (case map_of d ''error'' of None \<Rightarrow> JObj [] | Some v \<Rightarrow> v) = JObj er
              \<and> \<not> (url = endpoint_primary (init \<lparr>arg_api_key = Some ''token'', arg_base_url = None, arg_model = None,
        arg_max_tokens = None, arg_temperature = None, arg_timeout = None,
        arg_trust_env = None\<rparr> Map.empty) \<and> status_code r \<in> {404, 422})
              \<and> ''GitHub Models API error 500 (server_error): Internal error'' = ''GitHub Models API error '' @ str_int (status_code r) @ '' (''
                  @ py_str (case map_of er ''code'' of None \<Rightarrow> JNull | Some v \<Rightarrow> v) @ ''): ''
                  @ py_str excerpt
              \<and> ((\<exists>t. map_of er ''message'' = Some (JStr t) \<and> t \<noteq> [] \<and> excerpt = JStr (take 300 t))
              \<or> (\<exists>xs. map_of er ''message'' = Some (JArr xs) \<and> xs \<noteq> []
                    \<and> excerpt = JArr (take 300 xs))
              \<or> ((case map_of er ''message'' of None \<Rightarrow> True | Some v \<Rightarrow> \<not> truthy v)
                    \<and> excerpt = JStr (take 300 (py_str (JObj d)))))))))"
proof -
  have raised: "fst (call (\<lambda>rq n. (Inr \<lparr>status_code = 500, text_of = ''(the JSON text)'',
                json_of = Some (JObj [(''error'', JObj [(''code'', JStr ''server_error''),
                  (''message'', JStr ''Internal error'')])])\<rparr> :: string + response, Suc n))
      (init \<lparr>arg_api_key = Some ''token'', arg_base_url = None, arg_model = None,
        arg_max_tokens = None, arg_temperature = None, arg_timeout = None,
        arg_trust_env = None\<rparr> Map.empty) ''describe a chair'' (0::nat))
     = Inl (RuntimeError ''GitHub Models API error 500 (server_error): Internal error'')"
    by (simp add: call_def init_def resolved_base_url_def Let_def rstrip_def post_def loop_body_def
        on_value_def api_error_msg_def str_int_def digits.simps)
  from raised runtime_error_forms [OF raised] show ?thesis
    by (rule conjI)
qed

text \<open>The claim as the spec states it fails: both endpoints answer 404 with an HTML page,
  and the message of the failure holds neither a URL, nor the status, nor any of the
  body.\<close>

theorem runtime_error_counterexample:
  "fst (call (\<lambda>rq n. (Inr \<lparr>status_code = 404, text_of = ''<html>Not Found</html>'',
                json_of = None\<rparr>, Suc n))
      (init \<lparr>arg_api_key = Some ''token'', arg_base_url = None, arg_model = None,
        arg_max_tokens = None, arg_temperature = None, arg_timeout = None,
        arg_trust_env = None\<rparr> Map.empty) ''describe a chair'' (0::nat))
     = Inl (RuntimeError ''Failed to reach a working chat/completions endpoint on GitHub Models.'')
   \<and> \<not> is_substring ''https://models.github.ai/inference/chat/completions''
        ''Failed to reach a working chat/completions endpoint on GitHub Models.''
   \<and> \<not> is_substring ''404''
        ''Failed to reach a working chat/completions endpoint on GitHub Models.''
   \<and> \<not> is_substring ''<html>Not Found</html>''
        ''Failed to reach a working chat/completions endpoint on GitHub Models.''"
  by (simp add: call_def init_def resolved_base_url_def Let_def rstrip_def post_def loop_body_def
      no_endpoint_msg_def)

subsection \<open>The resolution of the model\<close>

lemma model_init:
  "model (init a env) =
     or_else (arg_model a) (getenv_default env ''HOLODECK_MODEL'' ''openai/gpt-4o-mini'')"
  by (simp add: init_def Let_def)

text \<open>The explicit argument, when it is a non-empty string, overrides the variable
  \<^verbatim>\<open>HOLODECK_MODEL\<close>; the variable, when it is set, overrides the default.\<close>

lemma model_precedence:
  "model (init (a\<lparr>arg_model := Some (ch # m)\<rparr>) env) = ch # m"
  "model (init (a\<lparr>arg_model := None\<rparr>) (env(''HOLODECK_MODEL'' \<mapsto> v))) = v"
  "env ''HOLODECK_MODEL'' = None \<Longrightarrow>
     model (init (a\<lparr>arg_model := None\<rparr>) env) = ''openai/gpt-4o-mini''"
  by (simp_all add: model_init getenv_default_def)

text \<open>
  Claim C6 gives every field the order: explicit argument, first non-empty variable,
  default. The model does not follow it when \<^verbatim>\<open>HOLODECK_MODEL\<close> is set to the empty
  string: \<^verbatim>\<open>os.getenv(name, default)\<close> returns the empty string, and the model of the
  instance is empty, not the default \<^verbatim>\<open>openai/gpt-4o-mini\<close>. The base URL, three lines
  above in the constructor, skips an empty \<^verbatim>\<open>OPENAI_API_BASE\<close> and falls to its default.
\<close>

theorem empty_model_variable_is_kept:
  "model (init \<lparr>arg_api_key = Some ''token'', arg_base_url = None, arg_model = None,
        arg_max_tokens = None, arg_temperature = None, arg_timeout = None,
        arg_trust_env = None\<rparr> [''HOLODECK_MODEL'' \<mapsto> []]) = []
   \<and> base_url (init \<lparr>arg_api_key = Some ''token'', arg_base_url = None, arg_model = None,
        arg_max_tokens = None, arg_temperature = None, arg_timeout = None,
        arg_trust_env = None\<rparr> [''OPENAI_API_BASE'' \<mapsto> []])
       = ''https://models.github.ai/inference''"
  by (simp add: init_def resolved_base_url_def Let_def rstrip_def getenv_default_def)

subsection \<open>A parsed body at the primary endpoint\<close>

text \<open>
  Claim C10 sends every response of the primary endpoint with status 404 or 422 and a
  body that decodes as JSON on to the fallback. The source does so for a JSON object
  whose \<^verbatim>\<open>error\<close> is absent or an object (\<open>loop_body_primary_retry\<close>). It reads
  \<^verbatim>\<open>err.get("code")\<close> before it tests the status, so with the body
  \<^verbatim>\<open>{"error": "Not Found"}\<close> the call raises \<^verbatim>\<open>AttributeError\<close> after the request to the
  primary endpoint, and no request goes to the fallback.
\<close>

theorem unstructured_error_field_raises:
  "fst (call (\<lambda>rq n. (Inr \<lparr>status_code = 404, text_of = ''(the JSON text)'',
            json_of = Some (JObj [(''error'', JStr ''Not Found'')])\<rparr>, Suc n))
      (init \<lparr>arg_api_key = Some ''token'', arg_base_url = None, arg_model = None,
        arg_max_tokens = None, arg_temperature = None, arg_timeout = None,
        arg_trust_env = None\<rparr> Map.empty) ''describe a chair'' (0::nat))
     = Inl AttributeError
   \<and> map req_url (fst (snd (call (\<lambda>rq n. (Inr \<lparr>status_code = 404, text_of = ''(the JSON text)'',
            json_of = Some (JObj [(''error'', JStr ''Not Found'')])\<rparr>, Suc n))
      (init \<lparr>arg_api_key = Some ''token'', arg_base_url = None, arg_model = None,
        arg_max_tokens = None, arg_temperature = None, arg_timeout = None,
        arg_trust_env = None\<rparr> Map.empty) ''describe a chair'' (0::nat))))
     = [''https://models.github.ai/inference/v1/chat/completions'']"
  by (simp add: call_def init_def resolved_base_url_def Let_def rstrip_def post_def loop_body_def
      on_value_def request_of_def)

end
